theory Spec2Isabelle
  imports Complex_Main "HOL-Library.Sublist" "HOL-Library.Multiset"
begin

section \<open>Python values, exceptions and strings\<close>

text \<open>
  The Euclid client (\<^verbatim>\<open>astroquery/esa/euclid/core.py\<close>) is Python: attributes are
  dynamically typed and every failure is an exception. A value that the code inspects
  dynamically is a \<open>pyval\<close>; an operation that may raise returns \<open>error + 'a\<close>, with
  \<open>Inl\<close> the exception.
\<close>

datatype pyval = PyNone | PyInt int | PyStr string

text \<open>
  What \<^verbatim>\<open>__handle_http_error\<close> reads of the exception object: the attribute
  \<^verbatim>\<open>error.code\<close> when \<^verbatim>\<open>hasattr(error, 'code')\<close>, the attribute
  \<^verbatim>\<open>error.response.status_code\<close> when both \<^verbatim>\<open>hasattr\<close> tests succeed, and
  \<^verbatim>\<open>str(error)\<close>.
\<close>

record http_error =
  err_code :: "pyval option"
  err_response_status_code :: "pyval option"
  err_str :: string

datatype error =
    HTTPError http_error
  | ValueError string
  | TypeError string
  | OSError string
  | OtherError string

text \<open>\<^verbatim>\<open>str(err)\<close> of a caught exception.\<close>

fun str_error :: "error \<Rightarrow> string" where
  "str_error (HTTPError e) = err_str e"
| "str_error (ValueError m) = m"
| "str_error (TypeError m) = m"
| "str_error (OSError m) = m"
| "str_error (OtherError m) = m"

text \<open>Python truthiness of the values above: \<^verbatim>\<open>not v\<close>.\<close>

fun py_not :: "pyval \<Rightarrow> bool" where
  "py_not PyNone = True"
| "py_not (PyInt i) = (i = 0)"
| "py_not (PyStr s) = (s = [])"

text \<open>\<^verbatim>\<open>s.startswith(p)\<close> and the substring test \<^verbatim>\<open>n in s\<close> on strings.\<close>

fun startswith :: "string \<Rightarrow> string \<Rightarrow> bool" where
  "startswith s [] = True"
| "startswith [] (p # ps) = False"
| "startswith (c # cs) (p # ps) = (c = p \<and> startswith cs ps)"

fun str_contains :: "string \<Rightarrow> string \<Rightarrow> bool" where
  "str_contains n [] = (n = [])"
| "str_contains n (c # cs) = (startswith (c # cs) n \<or> str_contains n cs)"

text \<open>
  The operator \<^verbatim>\<open>n in v\<close> with a string on the left: substring containment when
  \<open>v\<close> is a string, \<^verbatim>\<open>TypeError\<close> when \<open>v\<close> is an integer or \<^verbatim>\<open>None\<close>.
\<close>

fun py_in :: "string \<Rightarrow> pyval \<Rightarrow> error + bool" where
  "py_in n (PyStr s) = Inr (str_contains n s)"
| "py_in n (PyInt i) = Inl (TypeError ''argument of type 'int' is not iterable'')"
| "py_in n PyNone = Inl (TypeError ''argument of type 'NoneType' is not iterable'')"

section \<open>Error classifier: \<^verbatim>\<open>EuclidClass.__handle_http_error\<close>\<close>

text \<open>The value of \<^verbatim>\<open>status_code\<close> when the chain of tests starts.\<close>

definition status_code_of :: "http_error \<Rightarrow> pyval" where
  "status_code_of error =
     (let status_code = PyNone;
          status_code = (case err_code error of Some c \<Rightarrow> c | None \<Rightarrow> status_code);
          status_code = (case err_response_status_code error of Some c \<Rightarrow> c | None \<Rightarrow> status_code)
      in if py_not status_code then PyStr (err_str error) else status_code)"

text \<open>Sequencing of operations that may raise: the first exception ends the run.\<close>

definition and_then :: "error + 'a \<Rightarrow> ('a \<Rightarrow> error + 'b) \<Rightarrow> error + 'b" where
  "and_then r f = (case r of Inl e \<Rightarrow> Inl e | Inr x \<Rightarrow> f x)"

text \<open>
  The \<^verbatim>\<open>if\<close>/\<^verbatim>\<open>elif\<close> chain. Each test is \<^verbatim>\<open>'<code>' in status_code\<close>, in
  the order of the source. The result is the Python variable \<^verbatim>\<open>message\<close>, which the
  callers compare with \<^verbatim>\<open>None\<close>: it is modelled as an optional string.
\<close>

definition handle_http_error :: "http_error \<Rightarrow> error + string option" where
  "handle_http_error error =
     (let status_code = status_code_of error in
      and_then (py_in ''400'' status_code) (\<lambda>t. if t then
        Inr (Some ''Server unable to fulfill a bad request'') else
      and_then (py_in ''401'' status_code) (\<lambda>t. if t then
        Inr (Some ''Session expired/Unauthorized access'') else
      and_then (py_in ''404'' status_code) (\<lambda>t. if t then
        Inr (Some ''Address not found. If you are requesting a product, please check you are logged in'') else
      and_then (py_in ''405'' status_code) (\<lambda>t. if t then
        Inr (Some ''Method call is not allowed'') else
      and_then (py_in ''407'' status_code) (\<lambda>t. if t then
        Inr (Some ''Using a proxy with an authentication required'') else
      and_then (py_in ''413'' status_code) (\<lambda>t. if t then
        Inr (Some ''Request entity too large'') else
      and_then (py_in ''414'' status_code) (\<lambda>t. if t then
        Inr (Some ''Request URI too long'') else
      and_then (py_in ''501'' status_code) (\<lambda>t. if t then
        Inr (Some ''Method not implemented'') else
      and_then (py_in ''503'' status_code) (\<lambda>t. if t then
        Inr (Some ''Service is not available'') else
      and_then (py_in ''500'' status_code) (\<lambda>t. if t then
        Inr (Some ''Internal server error'') else
        Inr (Some (''Http error detected: '' @ err_str error)))))))))))))"

text \<open>
  The table the chain walks, in the order of the source, and the reading of the chain as
  a search: the first code of the table that is a substring (\<open>sublist\<close>: a contiguous
  run of characters) of the status text decides.
\<close>

definition code_messages :: "(string \<times> string) list" where
  "code_messages =
     [(''400'', ''Server unable to fulfill a bad request''),
      (''401'', ''Session expired/Unauthorized access''),
      (''404'', ''Address not found. If you are requesting a product, please check you are logged in''),
      (''405'', ''Method call is not allowed''),
      (''407'', ''Using a proxy with an authentication required''),
      (''413'', ''Request entity too large''),
      (''414'', ''Request URI too long''),
      (''501'', ''Method not implemented''),
      (''503'', ''Service is not available''),
      (''500'', ''Internal server error'')]"

definition first_match :: "string \<Rightarrow> string \<Rightarrow> string" where
  "first_match status_text str_of_error =
     (case find (\<lambda>(c, m). sublist c status_text) code_messages of
        Some (c, m) \<Rightarrow> m
      | None \<Rightarrow> ''Http error detected: '' @ str_of_error)"

section \<open>Files, directories and paths\<close>

text \<open>
  The content of a directory is the list of its entries; a subdirectory carries its own
  content. The name of an entry is a single path component: a member that an archive
  stores as \<^verbatim>\<open>a/b\<close> is the directory \<^verbatim>\<open>a\<close> holding \<^verbatim>\<open>b\<close>. The place of an entry
  in the list says nothing: the order in which the operating system reports the entries
  of a directory is the file system's own, see \<open>scandir\<close> below. \<^verbatim>\<open>os.sep\<close> is
  \<^verbatim>\<open>/\<close>.
\<close>

datatype node = File string | Dir string "node list"

fun node_name :: "node \<Rightarrow> string" where
  "node_name (File f) = f"
| "node_name (Dir d sub) = d"

fun set_name :: "string \<Rightarrow> node \<Rightarrow> node" where
  "set_name n (File f) = File n"
| "set_name n (Dir d sub) = Dir n sub"

definition sep :: string where
  "sep = ''/''"

text \<open>
  The order of a directory listing. The file system reports the entries of a directory
  in an order of its own (by hash, by age, by name): it is a parameter, the \<open>rank\<close>
  that the file system gives to every name, and a listing is ordered by rank. Every order
  of the entries of a directory is the order by some rank.
\<close>

definition scandir :: "(string \<Rightarrow> nat) \<Rightarrow> node list \<Rightarrow> node list" where
  "scandir rank entries = sort_key (\<lambda>n. rank (node_name n)) entries"

lemma mset_scandir: "mset (scandir rank entries) = mset entries"
  by (simp add: scandir_def)

lemma size_scandir: "size_list size (scandir rank entries) = size_list size entries"
proof -
  have "mset (map size (scandir rank entries)) = mset (map size entries)"
    by (simp add: mset_scandir)
  then have "sum_list (map size (scandir rank entries)) = sum_list (map size entries)"
    by (metis sum_mset_sum_list)
  moreover have "length (scandir rank entries) = length entries"
    by (simp add: scandir_def)
  ultimately show ?thesis
    by (simp add: size_list_conv_sum_list)
qed

text \<open>\<^verbatim>\<open>os.listdir\<close> of a directory with the given content.\<close>

definition listdir :: "(string \<Rightarrow> nat) \<Rightarrow> node list \<Rightarrow> string list" where
  "listdir rank entries = map node_name (scandir rank entries)"

text \<open>\<^verbatim>\<open>os.path.basename\<close>, \<^verbatim>\<open>os.path.dirname\<close> and \<^verbatim>\<open>os.path.join\<close> (POSIX).\<close>

definition basename :: "string \<Rightarrow> string" where
  "basename p = rev (takeWhile (\<lambda>c. c \<noteq> CHR ''/'') (rev p))"

definition dirname :: "string \<Rightarrow> string" where
  "dirname p =
     (let head = rev (dropWhile (\<lambda>c. c \<noteq> CHR ''/'') (rev p)) in
      if head \<noteq> [] \<and> head \<noteq> replicate (length head) CHR ''/''
      then rev (dropWhile (\<lambda>c. c = CHR ''/'') (rev head))
      else head)"

definition path_join :: "string \<Rightarrow> string \<Rightarrow> string" where
  "path_join a b =
     (if take 1 b = ''/'' then b
      else if a = [] \<or> last a = CHR ''/'' then a @ b
      else a @ ''/'' @ b)"

text \<open>
  \<^verbatim>\<open>os.walk(topdir)\<close>: the triples (directory, subdirectory names, file names), the
  directory itself first, then the walk of each subdirectory, everything in the order of
  the listing.
\<close>

definition dir_names :: "node list \<Rightarrow> string list" where
  "dir_names entries = [d. Dir d sub \<leftarrow> entries]"

definition file_names :: "node list \<Rightarrow> string list" where
  "file_names entries = [f. File f \<leftarrow> entries]"

function walk ::
    "(string \<Rightarrow> nat) \<Rightarrow> string \<Rightarrow> node list \<Rightarrow> (string \<times> string list \<times> string list) list"
  and walk_subdirs ::
    "(string \<Rightarrow> nat) \<Rightarrow> string \<Rightarrow> node list \<Rightarrow> (string \<times> string list \<times> string list) list" where
  "walk rank topdir entries =
     (topdir, dir_names (scandir rank entries), file_names (scandir rank entries)) #
     walk_subdirs rank topdir (scandir rank entries)"
| "walk_subdirs rank topdir [] = []"
| "walk_subdirs rank topdir (File f # ns) = walk_subdirs rank topdir ns"
| "walk_subdirs rank topdir (Dir d sub # ns) =
     walk rank (path_join topdir d) sub @ walk_subdirs rank topdir ns"
  by pat_completeness auto
termination
  by (relation "measure (\<lambda>x. case x of
          Inl (rank, topdir, entries) \<Rightarrow> 2 * size_list size entries + 1
        | Inr (rank, topdir, entries) \<Rightarrow> 2 * size_list size entries)")
     (auto simp: size_scandir)

text \<open>
  \<^verbatim>\<open>os.rename(src, dst)\<close> for two paths of the directory with the given content: the
  entry named as \<open>src\<close> takes the name of \<open>dst\<close>; a missing source raises.
\<close>

definition rename :: "string \<Rightarrow> string \<Rightarrow> node list \<Rightarrow> error + node list" where
  "rename src dst entries =
     (if basename src \<in> set (map node_name entries)
      then Inr (map (\<lambda>n. if node_name n = basename src then set_name (basename dst) n else n) entries)
      else Inl (OSError ''FileNotFoundError''))"

text \<open>
  \<^verbatim>\<open>extractall\<close> of \<^verbatim>\<open>tarfile\<close> and \<^verbatim>\<open>zipfile\<close>: every member is written into the
  directory. A file replaces the file of its name, a directory is merged with the
  directory of its name, a new name is added; a file over a directory or a directory over
  a file raises.
\<close>

function (sequential) extract_entry :: "node \<Rightarrow> node list \<Rightarrow> error + node list"
  and extractall :: "node list \<Rightarrow> node list \<Rightarrow> error + node list" where
  "extract_entry m [] = Inr [m]"
| "extract_entry (File f) (File g # ns) =
     (if f = g then Inr (File g # ns)
      else case extract_entry (File f) ns of Inl e \<Rightarrow> Inl e | Inr ns' \<Rightarrow> Inr (File g # ns'))"
| "extract_entry (File f) (Dir g sub # ns) =
     (if f = g then Inl (OSError ''IsADirectoryError'')
      else case extract_entry (File f) ns of Inl e \<Rightarrow> Inl e | Inr ns' \<Rightarrow> Inr (Dir g sub # ns'))"
| "extract_entry (Dir d ms) (File g # ns) =
     (if d = g then Inl (OSError ''FileExistsError'')
      else case extract_entry (Dir d ms) ns of Inl e \<Rightarrow> Inl e | Inr ns' \<Rightarrow> Inr (File g # ns'))"
| "extract_entry (Dir d ms) (Dir g sub # ns) =
     (if d = g then (case extractall ms sub of Inl e \<Rightarrow> Inl e | Inr sub' \<Rightarrow> Inr (Dir g sub' # ns))
      else case extract_entry (Dir d ms) ns of Inl e \<Rightarrow> Inl e | Inr ns' \<Rightarrow> Inr (Dir g sub # ns'))"
| "extractall [] entries = Inr entries"
| "extractall (m # ms) entries =
     (case extract_entry m entries of Inl e \<Rightarrow> Inl e | Inr entries' \<Rightarrow> extractall ms entries')"
  by pat_completeness auto
termination
  by (relation "inv_image (measure id <*lex*> measure id)
        (\<lambda>x. case x of Inl (m, ns) \<Rightarrow> (size m, length ns) | Inr (ms, ns) \<Rightarrow> (size_list size ms, 0))")
     auto

text \<open>
  A downloaded payload, as the standard library sees it: its bytes, the members that
  \<^verbatim>\<open>extractall\<close> writes when \<^verbatim>\<open>tarfile\<close> (or \<^verbatim>\<open>zipfile\<close>) can open the file, and
  the exception of Python's gzip reader on a file that starts with the gzip magic and
  whose compressed stream is cut short or damaged (\<^verbatim>\<open>EOFError\<close>, \<^verbatim>\<open>zlib.error\<close>). A
  gzip-compressed tar archive is a tar file for \<^verbatim>\<open>tarfile\<close>.
\<close>

record payload =
  content :: string
  tar_members :: "node list option"
  zip_members :: "node list option"
  gzip_read_error :: "error option"

text \<open>
  \<^verbatim>\<open>EuclidClass.is_gz_file\<close>: the first two bytes of the file, in hexadecimal, are
  \<^verbatim>\<open>1f8b\<close>.
\<close>

definition is_gz_file :: "payload \<Rightarrow> bool" where
  "is_gz_file p = (take 2 (content p) = [CHR 0x1f, CHR 0x8b])"

text \<open>
  \<^verbatim>\<open>tarfile.is_tarfile\<close> tries to open the file, also as a compressed archive. It
  answers \<^verbatim>\<open>True\<close> when that succeeds and \<^verbatim>\<open>False\<close> when \<^verbatim>\<open>tarfile\<close> reports a
  read error; the exception of the gzip reader is not among those it catches, so on a
  file with the gzip magic and a broken stream the test itself raises.
  \<^verbatim>\<open>zipfile.is_zipfile\<close> does not raise on a file it can read.
\<close>

definition tarfile_open :: "payload \<Rightarrow> error + node list option" where
  "tarfile_open p =
     (case tar_members p of
        Some members \<Rightarrow> Inr (Some members)
      | None \<Rightarrow>
          if is_gz_file p
          then (case gzip_read_error p of Some e \<Rightarrow> Inl e | None \<Rightarrow> Inr None)
          else Inr None)"

definition is_tarfile :: "payload \<Rightarrow> error + bool" where
  "is_tarfile p = (case tarfile_open p of Inl e \<Rightarrow> Inl e | Inr m \<Rightarrow> Inr (m \<noteq> None))"

definition is_zipfile :: "payload \<Rightarrow> bool" where
  "is_zipfile p = (zip_members p \<noteq> None)"

section \<open>Values and collaborators of the retrieval operations\<close>

text \<open>The character \<^verbatim>\<open>'\<close>, which the query texts and messages contain.\<close>

definition quote :: string where
  "quote = [CHR 0x27]"

text \<open>\<^verbatim>\<open>str\<close> of an integer, \<^verbatim>\<open>sep.join\<close> and \<^verbatim>\<open>str\<close> of a value that may be \<^verbatim>\<open>None\<close>.\<close>

function str_nat :: "nat \<Rightarrow> string" where
  "str_nat n =
     (if n < 10 then [''0123456789'' ! n]
      else str_nat (n div 10) @ [''0123456789'' ! (n mod 10)])"
  by pat_completeness auto
termination
  by (relation "measure id") auto

definition str_int :: "int \<Rightarrow> string" where
  "str_int i = (if i < 0 then ''-'' @ str_nat (nat (- i)) else str_nat (nat i))"

fun join :: "string \<Rightarrow> string list \<Rightarrow> string" where
  "join s [] = []"
| "join s [x] = x"
| "join s (x # y # ys) = x @ s @ join s (y # ys)"

fun str_opt :: "string option \<Rightarrow> string" where
  "str_opt None = ''None''"
| "str_opt (Some s) = s"

text \<open>
  Modelled from the spec: \<^verbatim>\<open>commons.coord_to_radec\<close> (\<^verbatim>\<open>astroquery.utils.commons\<close>)
  is not among the sources. The coordinate parser returns the right ascension in hours
  and the declination in degrees of a sky coordinate: a \<open>SkyCoord\<close> is these two
  numbers.
\<close>

datatype coord = SkyCoord real real

fun coord_to_radec :: "coord \<Rightarrow> real \<times> real" where
  "coord_to_radec (SkyCoord ra_hours dec) = (ra_hours, dec)"

text \<open>
  The arguments as Python passes them. A coordinate is a string, a sky coordinate or a
  value of another type; a radius is a string, a quantity (value and unit) or a value of
  another type; \<^verbatim>\<open>columns\<close> is a tuple (the default \<^verbatim>\<open>()\<close>) or a list of column
  names. An absent argument is \<^verbatim>\<open>None\<close>.
\<close>

datatype quantity = Quantity real string

datatype coord_arg = CoordStr string | CoordObj coord | CoordOther

datatype quantity_arg = QuantityStr string | QuantityObj quantity | QuantityOther

datatype pyseq = PyTuple "string list" | PyList "string list"

section \<open>Collaborators and the state of the client\<close>

text \<open>
  The client talks to three endpoints through three \<^verbatim>\<open>TapPlus\<close> objects: itself (the
  catalog), \<^verbatim>\<open>__eucliddata\<close> and \<^verbatim>\<open>__euclidcutout\<close>. The state keeps what each
  session is, the calls made to the endpoints in order, the lines written to the log, and
  the content of each directory of the local file system.
\<close>

datatype endpoint = Catalog | Data | Cutout

datatype auth = Anonymous | Authenticated string

type_synonym table = "string list list"

datatype job = Job table


datatype call =
    Login endpoint
  | Logout endpoint
  | LaunchJob string
  | LaunchJobAsync string
  | LoadData endpoint "(string \<times> string) list" string

datatype level = LogInfo | LogError

record world =
  catalog_session :: auth
  data_session :: auth
  cutout_session :: auth
  calls :: "call list"
  log :: "(level \<times> string) list"
  dir_content :: "string \<Rightarrow> node list"

text \<open>
  What the collaborators answer. \<open>catalog_login\<close> is \<^verbatim>\<open>TapPlus.login\<close> on the catalog
  session: an exception, or the user and password it stored (\<^verbatim>\<open>_TapPlus__user\<close>,
  \<^verbatim>\<open>_TapPlus__pwd\<close>). Then come the outcomes of \<^verbatim>\<open>login\<close> on a sibling session, of
  \<^verbatim>\<open>logout\<close>, of \<^verbatim>\<open>TapPlus.launch_job\<close> and \<^verbatim>\<open>TapPlus.launch_job_async\<close> for a
  query, and of \<^verbatim>\<open>load_data\<close> (the payload it wrote to the output file); the astropy
  conversions \<^verbatim>\<open>commons.parse_coordinates\<close>, \<^verbatim>\<open>Quantity(value)\<close> and
  \<^verbatim>\<open>Angle(q).to_value(u.deg)\<close>; Python's floating-point product, its \<^verbatim>\<open>str\<close> of a
  float and its \<^verbatim>\<open>repr\<close> of a string; and of the host \<^verbatim>\<open>os.getcwd()\<close>, the time
  stamp \<^verbatim>\<open>datetime.now().strftime("%Y%m%d_%H%M%S")\<close>, the outcome of
  \<^verbatim>\<open>os.makedirs\<close> and the rank by which its file system orders a listing. A float is
  the real number it denotes.
\<close>

record env =
  catalog_login :: "string option \<Rightarrow> string option \<Rightarrow> string option \<Rightarrow> error + string \<times> string"
  sibling_login :: "endpoint \<Rightarrow> string \<Rightarrow> string \<Rightarrow> error option"
  logout_outcome :: "endpoint \<Rightarrow> error option"
  tap_launch_job :: "string \<Rightarrow> error + job"
  tap_launch_job_async :: "string \<Rightarrow> error + job"
  tap_load_data :: "endpoint \<Rightarrow> (string \<times> string) list \<Rightarrow> string \<Rightarrow> error + payload"
  parse_coordinates :: "string \<Rightarrow> error + coord"
  quantity_of_str :: "string \<Rightarrow> error + quantity"
  angle_to_deg :: "quantity \<Rightarrow> error + real"
  float_mul :: "real \<Rightarrow> real \<Rightarrow> real"
  float_str :: "real \<Rightarrow> string"
  str_repr :: "string \<Rightarrow> string"
  getcwd :: string
  now_stamp :: string
  makedirs :: "string \<Rightarrow> error option"
  scandir_rank :: "string \<Rightarrow> nat"

definition log_info :: "string \<Rightarrow> world \<Rightarrow> world" where
  "log_info m w = w\<lparr>log := log w @ [(LogInfo, m)]\<rparr>"

definition log_error :: "string \<Rightarrow> world \<Rightarrow> world" where
  "log_error m w = w\<lparr>log := log w @ [(LogError, m)]\<rparr>"

definition called :: "call \<Rightarrow> world \<Rightarrow> world" where
  "called c w = w\<lparr>calls := calls w @ [c]\<rparr>"

fun session :: "endpoint \<Rightarrow> world \<Rightarrow> auth" where
  "session Catalog w = catalog_session w"
| "session Data w = data_session w"
| "session Cutout w = cutout_session w"

fun set_session :: "endpoint \<Rightarrow> auth \<Rightarrow> world \<Rightarrow> world" where
  "set_session Catalog a w = w\<lparr>catalog_session := a\<rparr>"
| "set_session Data a w = w\<lparr>data_session := a\<rparr>"
| "set_session Cutout a w = w\<lparr>cutout_session := a\<rparr>"

text \<open>
  Modelled from the spec: \<^verbatim>\<open>TapPlus.login\<close> and \<^verbatim>\<open>TapPlus.logout\<close>
  (\<^verbatim>\<open>astroquery.utils.tap\<close>) are not among the sources. An endpoint session is
  anonymous or authenticated as a user and is mutated only by login and logout: a login
  that succeeds authenticates it, a login that raises leaves it anonymous, a logout that
  succeeds makes it anonymous, a logout that raises changes nothing.
\<close>

definition tap_login_catalog ::
  "env \<Rightarrow> string option \<Rightarrow> string option \<Rightarrow> string option \<Rightarrow> world \<Rightarrow>
   (error + string \<times> string) \<times> world" where
  "tap_login_catalog env user password credentials_file w =
     (let w = called (Login Catalog) w in
      case catalog_login env user password credentials_file of
        Inl e \<Rightarrow> (Inl e, set_session Catalog Anonymous w)
      | Inr (u, p) \<Rightarrow> (Inr (u, p), set_session Catalog (Authenticated u) w))"

definition tap_login :: "env \<Rightarrow> endpoint \<Rightarrow> string \<Rightarrow> string \<Rightarrow> world \<Rightarrow> (error + unit) \<times> world" where
  "tap_login env ep user password w =
     (let w = called (Login ep) w in
      case sibling_login env ep user password of
        Some e \<Rightarrow> (Inl e, set_session ep Anonymous w)
      | None \<Rightarrow> (Inr (), set_session ep (Authenticated user) w))"

definition tap_logout :: "env \<Rightarrow> endpoint \<Rightarrow> world \<Rightarrow> (error + unit) \<times> world" where
  "tap_logout env ep w =
     (let w = called (Logout ep) w in
      case logout_outcome env ep of
        Some e \<Rightarrow> (Inl e, w)
      | None \<Rightarrow> (Inr (), set_session ep Anonymous w))"

section \<open>Session coordinator: \<^verbatim>\<open>EuclidClass.login\<close>\<close>

text \<open>
  The handler of the second \<^verbatim>\<open>try\<close>: it catches \<^verbatim>\<open>HTTPError\<close> only, logs two lines
  and logs the catalog session out. Any other exception leaves \<^verbatim>\<open>login\<close>, as does an
  exception of the logout itself.
\<close>

definition login_rollback :: "env \<Rightarrow> error \<Rightarrow> world \<Rightarrow> (error + unit) \<times> world" where
  "login_rollback env e w =
     (case e of
        HTTPError err \<Rightarrow>
          (let w = log_error (''Error logging in data or cutout services: '' @ err_str err) w;
               w = log_error ''Logging out from TAP server'' w
           in tap_logout env Catalog w)
      | _ \<Rightarrow> (Inl e, w))"

definition login ::
  "env \<Rightarrow> string option \<Rightarrow> string option \<Rightarrow> string option \<Rightarrow> world \<Rightarrow> (error + unit) \<times> world" where
  "login env user password credentials_file w =
     (let w = log_info ''Login to Euclid TAP server'' w;
          (r, w) = tap_login_catalog env user password credentials_file w
      in case r of
           Inl (HTTPError err) \<Rightarrow>
             (Inr (), log_error (''Error logging in TAP server: '' @ err_str err) w)
         | Inl e \<Rightarrow> (Inl e, w)
         | Inr (tap_user, tap_password) \<Rightarrow>
             (let w = log_info ''Login to Euclid data service'' w;
                  (r, w) = tap_login env Data tap_user tap_password w
              in case r of
                   Inl e \<Rightarrow> login_rollback env e w
                 | Inr _ \<Rightarrow>
                     (let w = log_info ''Login to Euclid cutout service'' w;
                          (r, w) = tap_login env Cutout tap_user tap_password w
                      in case r of
                           Inl e \<Rightarrow> login_rollback env e w
                         | Inr _ \<Rightarrow> (Inr (), w))))"

section \<open>Synchronous job launcher: \<^verbatim>\<open>EuclidClass.launch_job\<close>\<close>

text \<open>
  The call of \<^verbatim>\<open>TapPlus.launch_job\<close> and its two handlers. The arguments other than
  the query are handed on unchanged. An exception raised inside the \<^verbatim>\<open>HTTPError\<close>
  handler is not caught by the \<^verbatim>\<open>Exception\<close> handler next to it: it leaves
  \<^verbatim>\<open>launch_job\<close>. A handler that ends without \<^verbatim>\<open>return\<close> gives \<^verbatim>\<open>None\<close>.
\<close>

definition launch_job :: "env \<Rightarrow> string \<Rightarrow> world \<Rightarrow> (error + job option) \<times> world" where
  "launch_job env query w =
     (let w = called (LaunchJob query) w in
      case tap_launch_job env query of
        Inr j \<Rightarrow> (Inr (Some j), w)
      | Inl (HTTPError err) \<Rightarrow>
          (case handle_http_error err of
             Inl e \<Rightarrow> (Inl e, w)
           | Inr None \<Rightarrow>
               (Inr None, log_error (''Query failed: '' @ query @ '', '' @ err_str err) w)
           | Inr (Some message) \<Rightarrow>
               (Inr None, log_error (''Query failed: '' @ query @ '': \<newline> '' @ message) w))
      | Inl exx \<Rightarrow>
          (Inr None, log_error (''Query failed: '' @ query @ '', '' @ str_error exx) w))"

section \<open>Archive normalizer: \<^verbatim>\<open>__extract_file\<close> and \<^verbatim>\<open>__check_file_number\<close>\<close>

text \<open>
  Both functions work on the directory that holds the payload (\<open>entries\<close> is its
  content) and on the list \<^verbatim>\<open>files\<close>, which they extend in place: they return the
  new content and the new list. The value \<^verbatim>\<open>__extract_file\<close> returns is not used by
  its callers. An exception of \<^verbatim>\<open>tarfile.is_tarfile\<close> or of an extraction leaves the
  function.
\<close>

fun members :: "node list option \<Rightarrow> node list" where
  "members (Some ms) = ms"
| "members None = []"

definition extract_file ::
  "payload \<Rightarrow> string \<Rightarrow> string \<Rightarrow> node list \<Rightarrow> string list \<Rightarrow> error + node list \<times> string list" where
  "extract_file p output_file_full_path output_dir entries files =
     and_then (is_tarfile p) (\<lambda>tar.
       if tar then
         and_then (extractall (members (tar_members p)) entries) (\<lambda>entries. Inr (entries, files))
       else if is_zipfile p then
         and_then (extractall (members (zip_members p)) entries) (\<lambda>entries. Inr (entries, files))
       else if \<not> is_gz_file p then
         Inr (entries, files @ [output_file_full_path])
       else Inr (entries, files))"

text \<open>
  \<^verbatim>\<open>os.listdir('')\<close> raises \<^verbatim>\<open>FileNotFoundError\<close>: that is the case of an
  output file named without a directory.
\<close>

definition check_file_number ::
  "(string \<Rightarrow> nat) \<Rightarrow> string \<Rightarrow> string \<Rightarrow> string \<Rightarrow> node list \<Rightarrow> string list \<Rightarrow>
   error + node list \<times> string list" where
  "check_file_number rank output_dir output_file_name output_file_full_path entries files =
     (if output_dir = [] then Inl (OSError ''FileNotFoundError'')
      else
        let num_files_in_dir = length (listdir rank entries) in
        if num_files_in_dir = 1 then
          let output_f = output_file_name;
              output_full_path = output_dir @ sep @ output_f
          in and_then (rename output_file_full_path output_full_path entries)
               (\<lambda>entries. Inr (entries, files @ [output_full_path]))
        else
          Inr (entries,
               files @ concat (map (\<lambda>(r, d, f).
                 map (path_join r) (filter (\<lambda>file. file \<noteq> output_file_name) f))
                 (walk rank output_dir entries))))"

text \<open>
  The end of \<^verbatim>\<open>get_observation_products\<close>, \<^verbatim>\<open>get_product\<close>, \<^verbatim>\<open>get_cutout\<close> and
  \<^verbatim>\<open>get_spectrum\<close>, the same in the four: the normalization of the downloaded payload.
\<close>

definition normalize_payload ::
  "(string \<Rightarrow> nat) \<Rightarrow> payload \<Rightarrow> string \<Rightarrow> string \<Rightarrow> node list \<Rightarrow>
   error + node list \<times> string list" where
  "normalize_payload rank p output_file_full_path output_dir entries =
     (let files = [] in
      and_then (extract_file p output_file_full_path output_dir entries files) (\<lambda>(entries, files).
        if files \<noteq> [] then Inr (entries, files)
        else check_file_number rank output_dir (basename output_file_full_path)
               output_file_full_path entries files))"

section \<open>Product listing: \<^verbatim>\<open>get_product_list\<close> and \<^verbatim>\<open>__get_tile_catalogue_list\<close>\<close>

text \<open>
  The configuration module \<^verbatim>\<open>astroquery.esa.euclid.conf\<close> is not among the sources:
  its row limit and its tables of product types are parameters, and so are the main table
  and its column names, which \<^verbatim>\<open>__init__\<close> reads from \<^verbatim>\<open>conf.ENVIRONMENTS\<close>.
\<close>

record conf =
  ROW_LIMIT :: int
  PRODUCT_TYPES :: "string list"
  MOSAIC_PRODUCTS :: "string list"
  BASIC_DOWNLOAD_DATA_PRODUCTS :: "string list"
  COMBINED_SPECTRA_PRODUCTS :: "string list"
  MER_SEGMENTATION_MAP_PRODUCTS :: "string list"
  OBSERVATION_STACK_PRODUCTS :: "string list"
  RAW_FRAME_PRODUCTS :: "string list"
  CALIBRATED_FRAME_PRODUCTS :: "string list"
  FRAME_CATALOG_PRODUCTS :: "string list"
  SIR_SCIENCE_FRAME_PRODUCTS :: "string list"
  main_table :: string
  main_table_ra :: string
  main_table_dec :: string





definition ERROR_MSG_REQUESTED_GENERIC :: string where
  "ERROR_MSG_REQUESTED_GENERIC = ''Missing required argument''"

definition ERROR_MSG_REQUESTED_RADIUS :: string where
  "ERROR_MSG_REQUESTED_RADIUS = ''Radius cannot be greater than 30 arcminutes''"













text \<open>
  \<^verbatim>\<open>super().launch_job(query=...)\<close> outside any \<^verbatim>\<open>try\<close>: the call is made, and an
  exception of \<^verbatim>\<open>TapPlus.launch_job\<close> leaves the caller.
\<close>

definition super_launch_job :: "env \<Rightarrow> string \<Rightarrow> world \<Rightarrow> (error + job) \<times> world" where
  "super_launch_job env query w = (tap_launch_job env query, called (LaunchJob query) w)"

definition super_launch_job_async :: "env \<Rightarrow> string \<Rightarrow> world \<Rightarrow> (error + job) \<times> world" where
  "super_launch_job_async env query w =
     (tap_launch_job_async env query, called (LaunchJobAsync query) w)"






section \<open>Cone search: \<^verbatim>\<open>cone_search\<close> and \<^verbatim>\<open>__cone_search\<close>\<close>

text \<open>\<^verbatim>\<open>__get_quantity_input\<close> and \<^verbatim>\<open>__get_coord_input\<close>.\<close>

definition get_quantity_input :: "env \<Rightarrow> quantity_arg option \<Rightarrow> string \<Rightarrow> error + quantity" where
  "get_quantity_input env v msg =
     (case v of
        None \<Rightarrow> Inl (ValueError (''Missing required argument: '' @ quote @ msg @ quote))
      | Some QuantityOther \<Rightarrow>
          Inl (ValueError (msg @ '' must be either a string or astropy.coordinates''))
      | Some (QuantityStr s) \<Rightarrow> quantity_of_str env s
      | Some (QuantityObj q) \<Rightarrow> Inr q)"

definition get_coord_input :: "env \<Rightarrow> coord_arg option \<Rightarrow> string \<Rightarrow> error + coord" where
  "get_coord_input env v msg =
     (case v of
        Some (CoordStr s) \<Rightarrow> parse_coordinates env s
      | Some (CoordObj c) \<Rightarrow> Inr c
      | _ \<Rightarrow> Inl (ValueError (msg @ '' must be either a string or astropy.coordinates'')))"

text \<open>\<^verbatim>\<open>Angle(self.__get_quantity_input(radius, "radius")).to_value(u.deg)\<close>.\<close>

definition radius_to_deg :: "env \<Rightarrow> quantity_arg option \<Rightarrow> error + real" where
  "radius_to_deg env radius =
     and_then (get_quantity_input env radius ''radius'') (angle_to_deg env)"

text \<open>
  What \<^verbatim>\<open>str.format\<close> writes for \<^verbatim>\<open>columns\<close> when it is still a tuple or a list,
  and the truth value of \<^verbatim>\<open>columns\<close>.
\<close>

fun str_seq :: "env \<Rightarrow> pyseq \<Rightarrow> string" where
  "str_seq env (PyTuple []) = ''()''"
| "str_seq env (PyTuple [x]) = ''('' @ str_repr env x @ '',)''"
| "str_seq env (PyTuple xs) = ''('' @ join '', '' (map (str_repr env) xs) @ '')''"
| "str_seq env (PyList xs) = ''['' @ join '', '' (map (str_repr env) xs) @ '']''"

fun items :: "pyseq \<Rightarrow> string list" where
  "items (PyTuple xs) = xs"
| "items (PyList xs) = xs"

text \<open>The template of the query, the same text in both functions, with its eight fields.\<close>

definition cone_query_text :: "string \<Rightarrow> string \<Rightarrow> string \<Rightarrow> string \<Rightarrow> string \<Rightarrow> string \<Rightarrow> string \<Rightarrow> string \<Rightarrow> string" where
  "cone_query_text ra_column row_limit dec_column columns ra dec radius table_name =
     ''\<newline>                SELECT\<newline>                  '' @ row_limit @
     ''\<newline>                  '' @ columns @
     '',\<newline>                  DISTANCE(\<newline>                '' @ ''    POINT('' @
     quote @ ''ICRS'' @ quote @ '', '' @ ra_column @ '', '' @ dec_column @
     ''),\<newline>                    POINT('' @ quote @ ''ICRS'' @ quote @ '', '' @ ra @
     '', '' @ dec @ '')\<newline>                  ) AS dist\<newline>                '' @
     ''FROM\<newline>                  '' @ table_name @
     ''\<newline>                WHERE\<newline>                  1 = '' @
     ''CONTAINS(\<newline>                    POINT('' @ quote @ ''ICRS'' @ quote @ '', '' @
     ra_column @ '', '' @ dec_column @ ''),\<newline>                    CIRCLE('' @ quote @
     ''ICRS'' @ quote @ '', '' @ ra @ '', '' @ dec @ '', '' @ radius @
     '')\<newline>                  )\<newline>                ORDER '' @
     ''BY\<newline>                  dist ASC\<newline>                ''"

definition row_limit_text :: "conf \<Rightarrow> string" where
  "row_limit_text cf = (if ROW_LIMIT cf > 0 then ''TOP '' @ str_int (ROW_LIMIT cf) else [])"

text \<open>
  The public \<^verbatim>\<open>cone_search\<close>. The statements that turn \<^verbatim>\<open>columns\<close> into
  \<^verbatim>\<open>*\<close> or a comma list stand inside a string literal in the source, so they do not
  run: \<^verbatim>\<open>columns\<close> reaches the template as the caller passed it.
\<close>

definition cone_search_query ::
  "conf \<Rightarrow> env \<Rightarrow> coord_arg option \<Rightarrow> quantity_arg option \<Rightarrow> string option \<Rightarrow> string option \<Rightarrow>
   string option \<Rightarrow> pyseq \<Rightarrow> error + string" where
  "cone_search_query cf env coordinate radius table_name ra_column_name dec_column_name columns =
     and_then (get_coord_input env coordinate ''coordinate'') (\<lambda>coord.
       let (ra_hours, dec) = coord_to_radec coord;
           ra = float_mul env ra_hours 15
       in and_then (case radius of
                      None \<Rightarrow> Inr None
                    | Some _ \<Rightarrow> and_then (radius_to_deg env radius) (\<lambda>d. Inr (Some d)))
            (\<lambda>radius_deg.
               let (table_name, ra_column_name, dec_column_name) =
                     (if table_name = None
                      then (Some (main_table cf), Some (main_table_ra cf), Some (main_table_dec cf))
                      else (table_name, ra_column_name, dec_column_name))
               in Inr (cone_query_text (str_opt ra_column_name) (row_limit_text cf)
                         (str_opt dec_column_name) (str_seq env columns)
                         (float_str env ra) (float_str env dec)
                         (case radius_deg of None \<Rightarrow> ''None'' | Some r \<Rightarrow> float_str env r)
                         (str_opt table_name))))"

definition cone_search ::
  "conf \<Rightarrow> env \<Rightarrow> coord_arg option \<Rightarrow> quantity_arg option \<Rightarrow> string option \<Rightarrow> string option \<Rightarrow>
   string option \<Rightarrow> bool \<Rightarrow> pyseq \<Rightarrow> world \<Rightarrow> (error + job) \<times> world" where
  "cone_search cf env coordinate radius table_name ra_column_name dec_column_name async_job
     columns w =
     (case cone_search_query cf env coordinate radius table_name ra_column_name dec_column_name
             columns of
        Inl e \<Rightarrow> (Inl e, w)
      | Inr query \<Rightarrow>
          if async_job then super_launch_job_async env query w
          else super_launch_job env query w)"

text \<open>
  The private \<^verbatim>\<open>__cone_search\<close>, which \<^verbatim>\<open>query_object\<close> uses: here the statements
  on \<^verbatim>\<open>columns\<close> do run.
\<close>

definition private_cone_search_query ::
  "conf \<Rightarrow> env \<Rightarrow> coord_arg option \<Rightarrow> quantity_arg option \<Rightarrow> string option \<Rightarrow> string option \<Rightarrow>
   string option \<Rightarrow> pyseq \<Rightarrow> error + string" where
  "private_cone_search_query cf env coordinate radius table_name ra_column_name dec_column_name
     columns =
     (let (table_name, ra_column_name, dec_column_name) =
            (if table_name = None
             then (Some (main_table cf), Some (main_table_ra cf), Some (main_table_dec cf))
             else (table_name, ra_column_name, dec_column_name))
      in and_then (get_coord_input env coordinate ''coordinate'') (\<lambda>coord.
           let (ra_hours, dec) = coord_to_radec coord;
               ra = float_mul env ra_hours 15
           in and_then (case radius of
                          None \<Rightarrow> Inr None
                        | Some _ \<Rightarrow> and_then (radius_to_deg env radius) (\<lambda>d. Inr (Some d)))
                (\<lambda>radius_deg.
                   let columns = (if items columns \<noteq> [] then join '','' (items columns) else ''*'')
                   in Inr (cone_query_text (str_opt ra_column_name) (row_limit_text cf)
                             (str_opt dec_column_name) columns
                             (float_str env ra) (float_str env dec)
                             (case radius_deg of None \<Rightarrow> ''None'' | Some r \<Rightarrow> float_str env r)
                             (str_opt table_name)))))"

definition private_cone_search ::
  "conf \<Rightarrow> env \<Rightarrow> coord_arg option \<Rightarrow> quantity_arg option \<Rightarrow> string option \<Rightarrow> string option \<Rightarrow>
   string option \<Rightarrow> bool \<Rightarrow> pyseq \<Rightarrow> world \<Rightarrow> (error + job) \<times> world" where
  "private_cone_search cf env coordinate radius table_name ra_column_name dec_column_name
     async_job columns w =
     (case private_cone_search_query cf env coordinate radius table_name ra_column_name
             dec_column_name columns of
        Inl e \<Rightarrow> (Inl e, w)
      | Inr query \<Rightarrow>
          if async_job then super_launch_job_async env query w
          else super_launch_job env query w)"

section \<open>Cutout retrieval: \<^verbatim>\<open>__set_dirs\<close> and \<^verbatim>\<open>get_cutout\<close>\<close>

text \<open>
  \<^verbatim>\<open>__set_dirs\<close>: the output file and its directory, which is created unless its name
  is empty. An \<^verbatim>\<open>OSError\<close> of \<^verbatim>\<open>os.makedirs\<close> is raised again with a message of its
  own; any other exception leaves as it is.
\<close>

definition set_dirs :: "env \<Rightarrow> string option \<Rightarrow> string \<Rightarrow> error + string \<times> string" where
  "set_dirs env output_file observation_id =
     (let (output_file_full_path, output_dir) =
            (case output_file of
               None \<Rightarrow>
                 (let output_dir = getcwd env @ sep @ ''temp_'' @ now_stamp env
                  in (output_dir @ sep @ observation_id, output_dir))
             | Some f \<Rightarrow> (f, dirname f))
      in if output_dir \<noteq> [] then
           (case makedirs env output_dir of
              Some (OSError strerror) \<Rightarrow>
                Inl (OSError (''Creation of the directory '' @ output_dir @ '' failed: '' @ strerror))
            | Some e \<Rightarrow> Inl e
            | None \<Rightarrow> Inr (output_file_full_path, output_dir))
         else Inr (output_file_full_path, output_dir))"

text \<open>
  The directory that holds a file written under \<open>output_dir\<close>: the working directory
  when the name is empty. A download writes the payload there under its file name.
\<close>

definition holding_dir :: "env \<Rightarrow> string \<Rightarrow> string" where
  "holding_dir env output_dir = (if output_dir = [] then getcwd env else output_dir)"

definition write_file :: "string \<Rightarrow> node list \<Rightarrow> node list" where
  "write_file name entries =
     (if name \<in> set (map node_name entries) then entries else entries @ [File name])"

text \<open>
  \<^verbatim>\<open>get_cutout\<close>. The result \<open>Inr None\<close> is the \<^verbatim>\<open>None\<close> the function returns after
  a failed download; \<open>Inr (Some files)\<close> is the list of paths.
\<close>

definition get_cutout ::
  "env \<Rightarrow> string option \<Rightarrow> string option \<Rightarrow> string option \<Rightarrow> coord_arg option \<Rightarrow>
   quantity_arg option \<Rightarrow> string option \<Rightarrow> world \<Rightarrow> (error + string list option) \<times> world" where
  "get_cutout env file_path instrument ident coordinate radius output_file w =
     (if file_path = None \<or> instrument = None \<or> ident = None \<or> coordinate = None \<or> radius = None
      then (Inl (ValueError ERROR_MSG_REQUESTED_GENERIC), w)
      else
      case radius_to_deg env radius of
        Inl e \<Rightarrow> (Inl e, w)
      | Inr radius_deg \<Rightarrow>
      if radius_deg > 0.5 then (Inl (ValueError ERROR_MSG_REQUESTED_RADIUS), w)
      else
      case get_coord_input env coordinate ''coordinate'' of
        Inl e \<Rightarrow> (Inl e, w)
      | Inr coord \<Rightarrow>
      let (ra_hours, dec) = coord_to_radec coord;
          ra = float_mul env ra_hours 15;
          pos = ''CIRCLE,'' @ float_str env ra @ '','' @ float_str env dec @ '','' @
                float_str env radius_deg;
          params_dict = [(''TAPCLIENT'', ''ASTROQUERY''), (''FILEPATH'', str_opt file_path),
                         (''COLLECTION'', str_opt instrument), (''OBSID'', str_opt ident),
                         (''POS'', pos)]
      in
      case set_dirs env output_file ''temp'' of
        Inl e \<Rightarrow> (Inl e, w)
      | Inr (output_file_full_path, output_dir) \<Rightarrow>
      let w = called (LoadData Cutout params_dict output_file_full_path) w in
      case tap_load_data env Cutout params_dict output_file_full_path of
        Inl (HTTPError err) \<Rightarrow>
          (case handle_http_error err of
             Inl e \<Rightarrow> (Inl e, w)
           | Inr message \<Rightarrow>
               (let w = log_error (''Cannot retrieve the product for file_path '' @
                          str_opt file_path @ '', obsId '' @ str_opt ident @
                          '', and collection '' @ str_opt instrument @ '': \<newline> '' @
                          err_str err) w;
                    w = (case message of
                           Some m \<Rightarrow> log_error (''Error message from server: '' @ m) w
                         | None \<Rightarrow> w)
                in (Inr None, w)))
      | Inl exx \<Rightarrow>
          (Inr None,
           log_error (''Cannot retrieve the product for file_path '' @ str_opt file_path @
             '', obsId '' @ str_opt ident @ '', and collection '' @ str_opt instrument @
             '': \<newline> '' @ str_error exx) w)
      | Inr p \<Rightarrow>
          (let d = holding_dir env output_dir;
               entries = write_file (basename output_file_full_path) (dir_content w d)
           in case normalize_payload (scandir_rank env) p output_file_full_path output_dir entries of
                Inl e \<Rightarrow> (Inl e, w\<lparr>dir_content := (dir_content w)(d := entries)\<rparr>)
              | Inr (entries, files) \<Rightarrow>
                  (Inr (Some files), w\<lparr>dir_content := (dir_content w)(d := entries)\<rparr>)))"

section \<open>Concrete states and collaborators used in the examples\<close>

definition world0 :: world where
  "world0 = \<lparr>catalog_session = Anonymous, data_session = Anonymous, cutout_session = Anonymous,
     calls = [], log = [], dir_content = (\<lambda>d. [])\<rparr>"

text \<open>An \<^verbatim>\<open>HTTPError\<close> built from a message only, as \<^verbatim>\<open>TapPlus\<close> raises it.\<close>

definition http_msg :: "string \<Rightarrow> http_error" where
  "http_msg m = \<lparr>err_code = None, err_response_status_code = None, err_str = m\<rparr>"

text \<open>An \<^verbatim>\<open>HTTPError\<close> that carries a response with the given \<^verbatim>\<open>status_code\<close>.\<close>

definition http_status :: "pyval \<Rightarrow> string \<Rightarrow> http_error" where
  "http_status c m = \<lparr>err_code = None, err_response_status_code = Some c, err_str = m\<rparr>"

text \<open>
  Payloads: the twelve bytes \<^verbatim>\<open>SIMPLE  =  T\<close>; the same bytes compressed by gzip, a
  complete stream of 32 bytes that is neither a tar nor a zip archive; and a tar and a
  zip archive with the given members.
\<close>

definition plain_payload :: payload where
  "plain_payload =
     \<lparr>content = ''SIMPLE  =  T'', tar_members = None, zip_members = None,
      gzip_read_error = None\<rparr>"

definition gz_payload :: payload where
  "gz_payload =
     \<lparr>content =
        [CHR 0x1f, CHR 0x8b, CHR 0x08, CHR 0x00, CHR 0x00, CHR 0x00, CHR 0x00, CHR 0x00,
         CHR 0x02, CHR 0x03, CHR 0x0b, CHR 0xf6, CHR 0xf4, CHR 0x0d, CHR 0xf0, CHR 0x71,
         CHR 0x55, CHR 0x50, CHR 0xb0, CHR 0x55, CHR 0x50, CHR 0x08, CHR 0x01, CHR 0x00,
         CHR 0x02, CHR 0xd4, CHR 0xc1, CHR 0xe9, CHR 0x0c, CHR 0x00, CHR 0x00, CHR 0x00],
      tar_members = None, zip_members = None, gzip_read_error = None\<rparr>"

definition tar_payload :: "node list \<Rightarrow> payload" where
  "tar_payload ms =
     \<lparr>content = replicate 512 (CHR 0x00), tar_members = Some ms, zip_members = None,
      gzip_read_error = None\<rparr>"


text \<open>A file cut after the gzip magic: Python's gzip reader raises \<^verbatim>\<open>EOFError\<close> on it.\<close>

definition cut_gz_payload :: payload where
  "cut_gz_payload =
     \<lparr>content = [CHR 0x1f, CHR 0x8b, CHR 0x08], tar_members = None, zip_members = None,
      gzip_read_error = Some (OtherError ''EOFError'')\<rparr>"

text \<open>
  Two ranks: every name the same (the listing keeps the order of the content), and a
  rank that lists \<^verbatim>\<open>b.fits\<close> first.
\<close>

definition rank_flat :: "string \<Rightarrow> nat" where
  "rank_flat name = 0"

definition rank_b_first :: "string \<Rightarrow> nat" where
  "rank_b_first name = (if name = ''b.fits'' then 0 else 1)"

text \<open>
  Collaborators that all succeed: angles in degrees or arc minutes, the floats of the
  examples printed as Python prints them, names without quotes or escapes in \<^verbatim>\<open>repr\<close>.
\<close>

definition env_ok :: env where
  "env_ok =
     \<lparr>catalog_login = (\<lambda>u p f. Inr (''alice'', ''secret'')),
      sibling_login = (\<lambda>ep u p. None),
      logout_outcome = (\<lambda>ep. None),
      tap_launch_job = (\<lambda>q. Inr (Job [])),
      tap_launch_job_async = (\<lambda>q. Inr (Job [])),
      tap_load_data = (\<lambda>ep params f. Inr plain_payload),
      parse_coordinates = (\<lambda>s. Inl (ValueError ''Invalid coordinate'')),
      quantity_of_str = (\<lambda>s. Inl (TypeError ''Cannot parse quantity'')),
      angle_to_deg = (\<lambda>q. case q of Quantity v u \<Rightarrow>
        if u = ''deg'' then Inr v
        else if u = ''arcmin'' then Inr (v / 60)
        else Inl (OtherError ''UnitTypeError'')),
      float_mul = (\<lambda>x y. x * y),
      float_str = (\<lambda>x.
        if x = 10 then ''10.0'' else if x = 20 then ''20.0''
        else if x = 1 / 20 then ''0.05'' else if x = 1 then ''1.0'' else ''nan''),
      str_repr = (\<lambda>s. quote @ s @ quote),
      getcwd = ''/home/user'',
      now_stamp = ''20240101_120000'',
      makedirs = (\<lambda>d. None),
      scandir_rank = length\<rparr>"

definition env_server_error :: env where
  "env_server_error =
     env_ok\<lparr>tap_launch_job :=
       (\<lambda>q. Inl (HTTPError (http_status (PyInt 500) ''500 Server Error'')))\<rparr>"

definition env_data_down :: env where
  "env_data_down =
     env_ok\<lparr>sibling_login := (\<lambda>ep u p.
       if ep = Data then Some (HTTPError (http_msg ''Login error: Unauthorized'')) else None)\<rparr>"

definition env_cutout_down :: env where
  "env_cutout_down =
     env_ok\<lparr>sibling_login := (\<lambda>ep u p.
       if ep = Cutout then Some (HTTPError (http_msg ''Login error: Unauthorized'')) else None)\<rparr>"

text \<open>A configuration with a row limit of 5.\<close>

definition conf5 :: conf where
  "conf5 =
     \<lparr>ROW_LIMIT = 5,
      PRODUCT_TYPES = [''observation'', ''mosaic''],
      MOSAIC_PRODUCTS = [''DpdMerBksMosaic''],
      BASIC_DOWNLOAD_DATA_PRODUCTS = [''dpdMerFinalCatalog''],
      COMBINED_SPECTRA_PRODUCTS = [''DpdSirCombinedSpectra''],
      MER_SEGMENTATION_MAP_PRODUCTS = [''DpdMerSegmentationMap''],
      OBSERVATION_STACK_PRODUCTS = [''DpdVisStackedFrame'', ''DpdNirStackedFrame''],
      RAW_FRAME_PRODUCTS = [''dpdVisRawFrame'', ''dpdNispRawFrame''],
      CALIBRATED_FRAME_PRODUCTS = [''DpdVisCalibratedQuadFrame'', ''DpdNirCalibratedFrame''],
      FRAME_CATALOG_PRODUCTS = [''DpdVisStackedFrameCatalog''],
      SIR_SCIENCE_FRAME_PRODUCTS = [''dpdSirScienceFrame''],
      main_table = ''catalogue.mer_catalogue'',
      main_table_ra = ''right_ascension'',
      main_table_dec = ''declination''\<rparr>"

section \<open>Properties of the error classifier\<close>

text \<open>The string functions agree with the library's \<open>prefix\<close> and \<open>sublist\<close>.\<close>

lemma startswith_prefix: "startswith s p = prefix p s"
  by (induction s p rule: startswith.induct) auto

lemma str_contains_sublist: "str_contains n s = sublist n s"
  by (induction s) (auto simp: startswith_prefix sublist_Cons_right)

lemma handle_http_error_text:
  "status_code_of e = PyStr s \<Longrightarrow>
   handle_http_error e = Inr (Some (first_match s (err_str e)))"
  by (simp add: handle_http_error_def and_then_def first_match_def code_messages_def
      str_contains_sublist)

lemma handle_http_error_int:
  "status_code_of e = PyInt i \<Longrightarrow>
   handle_http_error e = Inl (TypeError ''argument of type 'int' is not iterable'')"
  by (simp add: handle_http_error_def and_then_def)

lemma status_code_of_not_None: "status_code_of e \<noteq> PyNone"
  by (auto simp: status_code_of_def Let_def split: option.splits)

lemma handle_http_error_never_None: "handle_http_error e \<noteq> Inr None"
proof (cases "status_code_of e")
  case PyNone
  then show ?thesis by (simp add: status_code_of_not_None)
next
  case (PyInt i)
  then show ?thesis by (simp add: handle_http_error_int)
next
  case (PyStr s)
  then show ?thesis by (simp add: handle_http_error_text)
qed

text \<open>
  Claim C2, as the code has it. The classifier matches by substring containment, in the
  order of the source: for every error whose status is a text \<open>s\<close> (a textual status
  attribute, or \<^verbatim>\<open>str(error)\<close> when there is none), the message is that of the first
  code of \<open>code_messages\<close> that occurs anywhere in \<open>s\<close>, and
  \<^verbatim>\<open>Http error detected: <str(error)>\<close> when no code occurs. So the status text
  \<^verbatim>\<open>500\<close> gives the internal-server-error message, \<^verbatim>\<open>501\<close> the not-implemented
  message, and an error without status whose text is \<^verbatim>\<open>timeout\<close> the unknown message
  carrying that text.
\<close>

theorem handle_http_error_first_substring:
  "handle_http_error (http_status (PyStr ''500'') m) = Inr (Some ''Internal server error'') \<and>
   handle_http_error (http_status (PyStr ''501'') m) = Inr (Some ''Method not implemented'') \<and>
   handle_http_error (http_msg ''timeout'') = Inr (Some ''Http error detected: timeout'') \<and>
   (\<forall>e s. status_code_of e = PyStr s \<longrightarrow>
      handle_http_error e = Inr (Some (first_match s (err_str e))))"
proof -
  have a: "status_code_of (http_status (PyStr ''500'') m) = PyStr ''500''"
    and b: "status_code_of (http_status (PyStr ''501'') m) = PyStr ''501''"
    and c: "status_code_of (http_msg ''timeout'') = PyStr ''timeout''"
    by (simp_all add: status_code_of_def http_status_def http_msg_def)
  have "first_match ''500'' (err_str (http_status (PyStr ''500'') m)) = ''Internal server error''"
    and "first_match ''501'' (err_str (http_status (PyStr ''501'') m)) = ''Method not implemented''"
    and "first_match ''timeout'' (err_str (http_msg ''timeout'')) = ''Http error detected: timeout''"
    by (simp_all add: first_match_def code_messages_def http_msg_def
        str_contains_sublist [symmetric])
  then show ?thesis
    using handle_http_error_text [OF a] handle_http_error_text [OF b]
      handle_http_error_text [OF c]
    by (simp add: handle_http_error_text)
qed

text \<open>
  The general part at an error that carries only the text \<^verbatim>\<open>Error 5001\<close>: the code
  \<^verbatim>\<open>500\<close> is the first of the table to occur in it.
\<close>

theorem handle_http_error_first_substring_witness:
  "status_code_of (http_msg ''Error 5001'') = PyStr ''Error 5001'' \<and>
   handle_http_error (http_msg ''Error 5001'') = Inr (Some ''Internal server error'')"
proof -
  have a: "status_code_of (http_msg ''Error 5001'') = PyStr ''Error 5001''"
    by (simp add: status_code_of_def http_msg_def)
  have "first_match ''Error 5001'' (err_str (http_msg ''Error 5001'')) = ''Internal server error''"
    by (simp add: first_match_def code_messages_def str_contains_sublist [symmetric])
  with handle_http_error_first_substring [of "[]"] a show ?thesis by simp
qed

text \<open>
  The claim as the specification words it (whole-code matching) fails: the status text
  \<^verbatim>\<open>5001\<close> is classified as code 500.
\<close>

theorem handle_http_error_5001_counterexample:
  "handle_http_error (http_status (PyStr ''5001'') ''Server said 5001'') =
     Inr (Some ''Internal server error'')"
  by (simp add: handle_http_error_def and_then_def status_code_of_def http_status_def)

text \<open>
  Claim C10 at an error whose response carries the integer status code 500, as the
  responses of the \<^verbatim>\<open>requests\<close> library do: the first test of the chain,
  \<^verbatim>\<open>'400' in status_code\<close>, raises \<^verbatim>\<open>TypeError\<close>. The classifier returns no message,
  and the exception leaves \<^verbatim>\<open>launch_job\<close> through its \<^verbatim>\<open>HTTPError\<close> handler.
\<close>

theorem handle_http_error_int_status_raises:
  "handle_http_error (http_status (PyInt 500) ''500 Server Error'') =
     Inl (TypeError ''argument of type 'int' is not iterable'') \<and>
   fst (launch_job env_server_error ''SELECT 1'' world0) =
     Inl (TypeError ''argument of type 'int' is not iterable'')"
  by (simp add: handle_http_error_def and_then_def status_code_of_def http_status_def
      launch_job_def env_server_error_def env_ok_def Let_def)

text \<open>
  What does hold for every error: the classifier never returns \<^verbatim>\<open>None\<close>
  (\<open>handle_http_error_never_None\<close>), so the branch \<^verbatim>\<open>if message is None\<close> of
  \<^verbatim>\<open>launch_job\<close> never runs: after an \<^verbatim>\<open>HTTPError\<close> the launcher either raises
  what the classifier raised, or logs the classified message.
\<close>

lemma launch_job_fallback_unreachable:
  assumes "tap_launch_job env query = Inl (HTTPError err)"
  shows "(\<exists>e. handle_http_error err = Inl e \<and>
            launch_job env query w = (Inl e, called (LaunchJob query) w)) \<or>
         (\<exists>message. handle_http_error err = Inr (Some message) \<and>
            launch_job env query w =
              (Inr None,
               log_error (''Query failed: '' @ query @ '': \<newline> '' @ message)
                 (called (LaunchJob query) w)))"
proof (cases "handle_http_error err")
  case (Inl e)
  with assms show ?thesis by (simp add: launch_job_def Let_def)
next
  case (Inr message)
  with handle_http_error_never_None [of err] obtain m where "message = Some m"
    by (cases message) auto
  with Inr assms show ?thesis by (simp add: launch_job_def Let_def)
qed

section \<open>Properties of the session coordinator\<close>

lemma world_simps:
  "calls (log_info m w) = calls w" "calls (log_error m w) = calls w"
  "calls (called c w) = calls w @ [c]" "calls (set_session ep a w) = calls w"
  "data_session (log_info m w) = data_session w" "data_session (log_error m w) = data_session w"
  "data_session (called c w) = data_session w"
  "cutout_session (log_info m w) = cutout_session w" "cutout_session (log_error m w) = cutout_session w"
  "cutout_session (called c w) = cutout_session w"
  "data_session (set_session Data a w) = a" "data_session (set_session Catalog a w) = data_session w"
  "data_session (set_session Cutout a w) = data_session w"
  "cutout_session (set_session Cutout a w) = a" "cutout_session (set_session Catalog a w) = cutout_session w"
  "cutout_session (set_session Data a w) = cutout_session w"
  by (cases ep; simp add: log_info_def log_error_def called_def)+

lemma tap_logout_calls: "calls (snd (tap_logout env ep w)) = calls w @ [Logout ep]"
  by (cases ep; simp add: tap_logout_def called_def Let_def split: option.splits)

lemma tap_logout_siblings:
  "data_session (snd (tap_logout env Catalog w)) = data_session w"
  "cutout_session (snd (tap_logout env Catalog w)) = cutout_session w"
  by (simp_all add: tap_logout_def called_def Let_def split: option.splits)

lemma tap_logout_ok:
  "logout_outcome env Catalog = None \<Longrightarrow>
   fst (tap_logout env Catalog w) = Inr () \<and>
   catalog_session (snd (tap_logout env Catalog w)) = Anonymous"
  by (simp add: tap_logout_def called_def Let_def)

text \<open>The run of \<^verbatim>\<open>login\<close> when the data login raises \<^verbatim>\<open>HTTPError\<close>.\<close>

lemma login_data_failure:
  assumes "catalog_login env user password credentials_file = Inr (u, p)"
    and "sibling_login env Data u p = Some (HTTPError err)"
  shows "login env user password credentials_file w =
     tap_logout env Catalog
       (log_error ''Logging out from TAP server''
         (log_error (''Error logging in data or cutout services: '' @ err_str err)
           (set_session Data Anonymous (called (Login Data)
             (log_info ''Login to Euclid data service''
               (set_session Catalog (Authenticated u) (called (Login Catalog)
                 (log_info ''Login to Euclid TAP server'' w))))))))"
  using assms
  by (simp add: login_def tap_login_catalog_def tap_login_def login_rollback_def Let_def)

text \<open>The run when the data login succeeds and the cutout login raises \<^verbatim>\<open>HTTPError\<close>.\<close>

lemma login_cutout_failure:
  assumes "catalog_login env user password credentials_file = Inr (u, p)"
    and "sibling_login env Data u p = None"
    and "sibling_login env Cutout u p = Some (HTTPError err)"
  shows "login env user password credentials_file w =
     tap_logout env Catalog
       (log_error ''Logging out from TAP server''
         (log_error (''Error logging in data or cutout services: '' @ err_str err)
           (set_session Cutout Anonymous (called (Login Cutout)
             (log_info ''Login to Euclid cutout service''
               (set_session Data (Authenticated u) (called (Login Data)
                 (log_info ''Login to Euclid data service''
                   (set_session Catalog (Authenticated u) (called (Login Catalog)
                     (log_info ''Login to Euclid TAP server'' w)))))))))))"
  using assms
  by (simp add: login_def tap_login_catalog_def tap_login_def login_rollback_def Let_def)

text \<open>
  Claim C1, as the code has it. When the catalog login succeeds and a sibling login raises
  \<^verbatim>\<open>HTTPError\<close>, \<^verbatim>\<open>login\<close> issues a logout of the catalog session as its last call.
  If the data login is the one that fails, the cutout login is never attempted: the calls
  are catalog login, data login, catalog logout, the data session is anonymous and the
  cutout session is what it was. If the cutout login is the one that fails, the calls are
  the three logins and the catalog logout, and the cutout session is anonymous. When the
  logout succeeds, \<^verbatim>\<open>login\<close> returns normally (the failure is logged, no exception is
  raised) and the catalog session is anonymous.
\<close>

theorem login_sibling_failure_rollback:
  assumes cat: "catalog_login env user password credentials_file = Inr (u, p)"
    and sib: "sibling_login env Data u p = Some (HTTPError err) \<or>
              (sibling_login env Data u p = None \<and> sibling_login env Cutout u p = Some (HTTPError err))"
  shows "(sibling_login env Data u p = Some (HTTPError err) \<longrightarrow>
            calls (snd (login env user password credentials_file w)) =
              calls w @ [Login Catalog, Login Data, Logout Catalog] \<and>
            data_session (snd (login env user password credentials_file w)) = Anonymous \<and>
            cutout_session (snd (login env user password credentials_file w)) = cutout_session w)
       \<and> (sibling_login env Data u p = None \<longrightarrow>
            calls (snd (login env user password credentials_file w)) =
              calls w @ [Login Catalog, Login Data, Login Cutout, Logout Catalog] \<and>
            cutout_session (snd (login env user password credentials_file w)) = Anonymous)
       \<and> (logout_outcome env Catalog = None \<longrightarrow>
            fst (login env user password credentials_file w) = Inr () \<and>
            catalog_session (snd (login env user password credentials_file w)) = Anonymous)"
proof (cases "sibling_login env Data u p")
  case None
  with sib have cut: "sibling_login env Cutout u p = Some (HTTPError err)" by simp
  note run = login_cutout_failure [OF cat None cut]
  show ?thesis
    by (simp add: None run tap_logout_calls tap_logout_siblings tap_logout_ok world_simps)
next
  case (Some e)
  with sib have dat: "sibling_login env Data u p = Some (HTTPError err)" by simp
  note run = login_data_failure [OF cat dat]
  show ?thesis
    by (simp add: dat run tap_logout_calls tap_logout_siblings tap_logout_ok world_simps)
qed

theorem login_sibling_failure_rollback_witness:
  "fst (login env_data_down (Some ''alice'') (Some ''secret'') None world0) = Inr () \<and>
   catalog_session (snd (login env_data_down (Some ''alice'') (Some ''secret'') None world0)) = Anonymous \<and>
   data_session (snd (login env_data_down (Some ''alice'') (Some ''secret'') None world0)) = Anonymous \<and>
   cutout_session (snd (login env_data_down (Some ''alice'') (Some ''secret'') None world0)) = Anonymous \<and>
   calls (snd (login env_data_down (Some ''alice'') (Some ''secret'') None world0)) =
     [Login Catalog, Login Data, Logout Catalog]"
  using login_sibling_failure_rollback [of env_data_down "Some ''alice''" "Some ''secret''" None
      "''alice''" "''secret''" "http_msg ''Login error: Unauthorized''" world0]
  by (simp add: env_data_down_def env_ok_def world0_def)

text \<open>
  The claim as the specification words it fails: with the catalog and data logins
  succeeding and the cutout login raising \<^verbatim>\<open>HTTPError\<close>, \<^verbatim>\<open>login\<close> returns normally
  instead of raising, and the data session stays authenticated.
\<close>

theorem login_all_or_nothing_counterexample:
  "fst (login env_cutout_down (Some ''alice'') (Some ''secret'') None world0) = Inr () \<and>
   data_session (snd (login env_cutout_down (Some ''alice'') (Some ''secret'') None world0)) =
     Authenticated ''alice''"
proof -
  have run: "login env_cutout_down (Some ''alice'') (Some ''secret'') None world0 =
     tap_logout env_cutout_down Catalog
       (log_error ''Logging out from TAP server''
         (log_error (''Error logging in data or cutout services: '' @
              err_str (http_msg ''Login error: Unauthorized''))
           (set_session Cutout Anonymous (called (Login Cutout)
             (log_info ''Login to Euclid cutout service''
               (set_session Data (Authenticated ''alice'') (called (Login Data)
                 (log_info ''Login to Euclid data service''
                   (set_session Catalog (Authenticated ''alice'') (called (Login Catalog)
                     (log_info ''Login to Euclid TAP server'' world0)))))))))))"
    by (rule login_cutout_failure) (simp_all add: env_cutout_down_def env_ok_def)
  have "logout_outcome env_cutout_down Catalog = None"
    by (simp add: env_cutout_down_def env_ok_def)
  then show ?thesis
    by (simp add: run tap_logout_ok tap_logout_siblings world_simps)
qed

section \<open>Properties of the archive normalizer\<close>

subsection \<open>Paths and directory listings\<close>

lemma basename_no_sep: "CHR ''/'' \<notin> set (basename p)"
  using set_takeWhileD [of "CHR ''/''" "\<lambda>c. c \<noteq> CHR ''/''" "rev p"]
  by (auto simp: basename_def)

lemma basename_append_sep: "CHR ''/'' \<notin> set b \<Longrightarrow> basename (d @ sep @ b) = b"
  by (simp add: basename_def sep_def takeWhile_append)

lemma basename_idem: "basename (d @ sep @ basename p) = basename p"
  by (rule basename_append_sep) (rule basename_no_sep)


lemma scandir_Nil [simp]: "scandir rank [] = []"
  by (simp add: scandir_def)

lemma scandir_single [simp]: "scandir rank [n] = [n]"
  by (simp add: scandir_def)

lemma set_scandir [simp]: "set (scandir rank entries) = set entries"
  by (simp add: scandir_def)

lemma length_listdir [simp]: "length (listdir rank entries) = length entries"
  by (simp add: listdir_def scandir_def)

lemma listdir_single: "listdir rank entries = [b] \<Longrightarrow> map node_name entries = [b]"
proof -
  assume a: "listdir rank entries = [b]"
  then have "length entries = 1"
    by (metis length_listdir length_Cons list.size(3) One_nat_def)
  then obtain n where "entries = [n]"
    by (cases entries) auto
  with a show ?thesis by (simp add: listdir_def)
qed

lemma file_names_Cons [simp]:
  "file_names [] = []" "file_names (File f # ns) = f # file_names ns"
  "file_names (Dir d sub # ns) = file_names ns"
  by (simp_all add: file_names_def)

lemma dir_names_Cons [simp]:
  "dir_names [] = []" "dir_names (File f # ns) = dir_names ns"
  "dir_names (Dir d sub # ns) = d # dir_names ns"
  by (simp_all add: dir_names_def)

lemma file_names_filter:
  "file_names ns =
     map node_name (filter (\<lambda>n. case n of File f \<Rightarrow> True | Dir d sub \<Rightarrow> False) ns)"
proof (induction ns)
  case Nil
  then show ?case by simp
next
  case (Cons n ns)
  then show ?case by (cases n) simp_all
qed

text \<open>The files of a listing are the files of the directory, in some order.\<close>

lemma mset_file_names_scandir:
  "mset (file_names (scandir rank entries)) = mset (file_names entries)"
  by (simp add: file_names_filter mset_scandir)

lemma file_names_files: "file_names (map File names) = names"
  by (induction names) auto


lemma walk_subdirs_files:
  "\<forall>n \<in> set es. \<exists>f. n = File f \<Longrightarrow> walk_subdirs rank d es = []"
  by (induction es) auto


lemma mset_single_list: "mset xs = {#a#} \<Longrightarrow> xs = [a]"
  by (cases xs) (auto simp: add_mset_eq_single)

lemma filter_notin: "b \<notin> set names \<Longrightarrow> filter (\<lambda>file. file \<noteq> b) names = names"
  by (induction names) auto

subsection \<open>What \<^verbatim>\<open>tarfile.is_tarfile\<close> answers\<close>


lemma is_tarfile_False: "is_tarfile p = Inr False \<Longrightarrow> tar_members p = None"
  by (cases "tar_members p") (simp_all add: is_tarfile_def tarfile_open_def)

lemma is_tarfile_no_magic: "\<not> is_gz_file p \<Longrightarrow> is_tarfile p = Inr (tar_members p \<noteq> None)"
  by (cases "tar_members p") (simp_all add: is_tarfile_def tarfile_open_def)

lemma is_tarfile_raises:
  "tar_members p = None \<Longrightarrow> is_gz_file p \<Longrightarrow> gzip_read_error p = Some e \<Longrightarrow>
   is_tarfile p = Inl e"
  by (simp add: is_tarfile_def tarfile_open_def)



subsection \<open>Extraction into a directory that has none of the names\<close>



subsection \<open>The two branches of \<^verbatim>\<open>__check_file_number\<close>\<close>

lemma rename_same:
  "map node_name entries = [basename path] \<Longrightarrow>
   rename path (output_dir @ sep @ basename path) entries = Inr entries"
  by (cases entries; cases "hd entries") (auto simp: rename_def basename_idem)

lemma check_file_number_single:
  assumes "output_dir \<noteq> []" "listdir rank entries = [basename path]"
  shows "check_file_number rank output_dir (basename path) path entries files =
           Inr (entries, files @ [output_dir @ sep @ basename path])"
proof -
  have "length (listdir rank entries) = 1" using assms by simp
  moreover have "map node_name entries = [basename path]"
    using assms(2) by (rule listdir_single)
  ultimately show ?thesis using assms(1)
    by (simp add: check_file_number_def rename_same and_then_def Let_def
        del: length_listdir)
qed

text \<open>
  The walk branch on a directory that holds files only: the files of the listing, the
  one named as the output file left out.
\<close>

lemma check_file_number_flat:
  assumes "output_dir \<noteq> []" "names \<noteq> []"
  shows "check_file_number rank output_dir b path (File b # map File names) files =
           Inr (File b # map File names,
                files @ map (path_join output_dir)
                  (filter (\<lambda>file. file \<noteq> b)
                    (file_names (scandir rank (File b # map File names)))))"
proof -
  have "walk_subdirs rank output_dir (scandir rank (File b # map File names)) = []"
    by (rule walk_subdirs_files) auto
  then show ?thesis
    using assms by (simp add: check_file_number_def)
qed

lemma mset_listed_files:
  assumes "b \<notin> set names"
  shows "mset (filter (\<lambda>file. file \<noteq> b) (file_names (scandir rank (File b # map File names)))) =
         mset names"
proof -
  have "mset (filter (\<lambda>file. file \<noteq> b) (file_names (scandir rank (File b # map File names)))) =
        filter_mset (\<lambda>file. file \<noteq> b) (mset (file_names (File b # map File names)))"
    by (simp add: mset_file_names_scandir)
  also have "\<dots> = mset (filter (\<lambda>file. file \<noteq> b) names)"
    by (simp add: file_names_files)
  finally show ?thesis using assms by (simp add: filter_notin)
qed

subsection \<open>The claims\<close>

text \<open>
  Claim C9. A payload that is not a tar archive, not a zip archive and does not start
  with the gzip magic is returned as the one-element list of its own path, and the
  directory is left as it was.
\<close>

theorem normalize_plain_file:
  assumes "is_tarfile p = Inr False" "\<not> is_zipfile p" "\<not> is_gz_file p"
  shows "normalize_payload rank p payloadPath output_dir entries = Inr (entries, [payloadPath])"
  using assms
  by (simp add: normalize_payload_def extract_file_def and_then_def)

theorem normalize_plain_file_witness:
  "normalize_payload rank_flat plain_payload ''temp_20240101_120000/out.fits''
     ''temp_20240101_120000'' [File ''out.fits''] =
   Inr ([File ''out.fits''], [''temp_20240101_120000/out.fits''])"
  using normalize_plain_file [of plain_payload rank_flat "''temp_20240101_120000/out.fits''"
      "''temp_20240101_120000''" "[File ''out.fits'']"]
  by (simp add: plain_payload_def is_tarfile_def tarfile_open_def is_zipfile_def is_gz_file_def)

text \<open>
  A payload with the gzip magic that is neither a tar nor a zip archive is not returned
  at once: \<^verbatim>\<open>__extract_file\<close> adds nothing to the list, so the directory-count step
  runs. In a directory that holds the payload and nothing else, that step takes its
  single-entry branch and gives the payload under its file name.
\<close>

lemma normalize_gz_single_entry:
  assumes "is_tarfile p = Inr False" "\<not> is_zipfile p" "is_gz_file p"
    and "output_dir \<noteq> []" "listdir rank entries = [basename payloadPath]"
  shows "normalize_payload rank p payloadPath output_dir entries =
           Inr (entries, [output_dir @ sep @ basename payloadPath]) \<and>
         normalize_payload rank p payloadPath output_dir entries =
           check_file_number rank output_dir (basename payloadPath) payloadPath entries []"
  using assms check_file_number_single [OF assms(4,5), of "[]"]
  by (simp add: normalize_payload_def extract_file_def and_then_def)

text \<open>
  On a file cut after the gzip magic \<^verbatim>\<open>tarfile.is_tarfile\<close> raises, and so does the
  normalization.
\<close>

lemma normalize_cut_gz_raises:
  "normalize_payload rank cut_gz_payload payloadPath output_dir entries =
     Inl (OtherError ''EOFError'')"
  by (simp add: normalize_payload_def extract_file_def and_then_def is_tarfile_def
      tarfile_open_def is_gz_file_def cut_gz_payload_def)

text \<open>
  Claim C5 at a complete gzip file (neither a tar nor a zip archive) that is downloaded
  as \<^verbatim>\<open>d/out.gz\<close> into a directory \<^verbatim>\<open>d\<close> which already holds \<^verbatim>\<open>old.txt\<close>, whatever
  the order of the listing. The payload is not returned directly: the directory-count
  step runs, finds two entries, walks the directory and leaves out the file named as the
  output file. The result is the one-element list of the old file; the downloaded file
  is not in it.
\<close>

theorem normalize_gz_omits_payload:
  "normalize_payload rank gz_payload ''d/out.gz'' ''d'' [File ''out.gz'', File ''old.txt''] =
     Inr ([File ''out.gz'', File ''old.txt''], [''d/old.txt''])"
proof -
  have ex: "extract_file gz_payload ''d/out.gz'' ''d'' [File ''out.gz'', File ''old.txt''] [] =
      Inr ([File ''out.gz'', File ''old.txt''], [])"
    by (simp add: extract_file_def and_then_def is_tarfile_def tarfile_open_def is_zipfile_def
        is_gz_file_def gz_payload_def)
  have b: "basename ''d/out.gz'' = ''out.gz''"
    by (simp add: basename_def)
  have ch: "check_file_number rank ''d'' ''out.gz'' ''d/out.gz''
        (File ''out.gz'' # map File [''old.txt'']) [] =
      Inr (File ''out.gz'' # map File [''old.txt''],
           [] @ map (path_join ''d'')
             (filter (\<lambda>file. file \<noteq> ''out.gz'')
               (file_names (scandir rank (File ''out.gz'' # map File [''old.txt''])))))"
    by (rule check_file_number_flat) simp_all
  have "mset (filter (\<lambda>file. file \<noteq> ''out.gz'')
          (file_names (scandir rank (File ''out.gz'' # map File [''old.txt''])))) =
        mset [''old.txt'']"
    by (rule mset_listed_files) simp
  then have "filter (\<lambda>file. file \<noteq> ''out.gz'')
          (file_names (scandir rank (File ''out.gz'' # map File [''old.txt'']))) = [''old.txt'']"
    by (intro mset_single_list) simp
  with ch have "check_file_number rank ''d'' ''out.gz'' ''d/out.gz''
        [File ''out.gz'', File ''old.txt''] [] =
      Inr ([File ''out.gz'', File ''old.txt''], [''d/old.txt''])"
    by (simp add: path_join_def)
  with ex b show ?thesis
    by (simp add: normalize_payload_def and_then_def)
qed



text \<open>The same call, computed: the order of the result is the order of the listing.\<close>

lemma normalize_archive_listing_order:
  "normalize_payload rank_b_first (tar_payload [File ''a.fits'', File ''b.fits''])
     ''d/out.tar'' ''d'' [File ''out.tar''] =
   Inr ([File ''out.tar'', File ''a.fits'', File ''b.fits''], [''d/b.fits'', ''d/a.fits''])"
  by (simp add: normalize_payload_def extract_file_def and_then_def tar_payload_def
      is_tarfile_def tarfile_open_def check_file_number_def listdir_def scandir_def
      rank_b_first_def basename_def path_join_def)





section \<open>Properties of the product listing\<close>







section \<open>Properties of the cutout retrieval\<close>

text \<open>
  Claim C8, as the code has it. For a call whose radius converts to more than 0.5
  degrees: when the other mandatory arguments (file path, instrument, identifier,
  coordinate) are all given, \<^verbatim>\<open>get_cutout\<close> raises the radius error; when one of them
  is missing, the check for missing arguments comes first and raises its own error. In
  both cases the state is untouched: the cutout endpoint has not been contacted.
\<close>

theorem get_cutout_radius_too_large:
  assumes "radius_to_deg env radius = Inr r" "r > 0.5"
  shows "(file_path \<noteq> None \<and> instrument \<noteq> None \<and> ident \<noteq> None \<and> coordinate \<noteq> None \<longrightarrow>
           get_cutout env file_path instrument ident coordinate radius output_file w =
             (Inl (ValueError ERROR_MSG_REQUESTED_RADIUS), w)) \<and>
         (file_path = None \<or> instrument = None \<or> ident = None \<or> coordinate = None \<longrightarrow>
           get_cutout env file_path instrument ident coordinate radius output_file w =
             (Inl (ValueError ERROR_MSG_REQUESTED_GENERIC), w))"
proof -
  have "radius \<noteq> None"
    using assms(1)
    by (cases radius) (simp_all add: radius_to_deg_def get_quantity_input_def and_then_def)
  then show ?thesis
    using assms by (auto simp: get_cutout_def)
qed

text \<open>A radius of 31 arc minutes, on a client that has made no call.\<close>

theorem get_cutout_radius_too_large_witness:
  "get_cutout env_ok (Some ''/data/EUC_VIS.fits'') (Some ''VIS'') (Some ''13'')
     (Some (CoordObj (SkyCoord (2 / 3) 20))) (Some (QuantityObj (Quantity 31 ''arcmin''))) None
     world0 =
   (Inl (ValueError ''Radius cannot be greater than 30 arcminutes''), world0) \<and>
   calls world0 = []"
  using get_cutout_radius_too_large [of env_ok "Some (QuantityObj (Quantity 31 ''arcmin''))"
      "31 / 60" "Some ''/data/EUC_VIS.fits''" "Some ''VIS''" "Some ''13''"
      "Some (CoordObj (SkyCoord (2 / 3) 20))" None world0]
  by (simp add: radius_to_deg_def get_quantity_input_def and_then_def env_ok_def
      ERROR_MSG_REQUESTED_RADIUS_def world0_def)

text \<open>
  The claim as the specification words it fails for a call with a radius of one degree
  and no file path: the error is the one for a missing argument, not the radius error.
\<close>

theorem get_cutout_missing_argument_counterexample:
  "get_cutout env_ok None (Some ''VIS'') (Some ''13'')
     (Some (CoordObj (SkyCoord (2 / 3) 20))) (Some (QuantityObj (Quantity 1 ''deg''))) None world0 =
   (Inl (ValueError ''Missing required argument''), world0)"
  by (simp add: get_cutout_def ERROR_MSG_REQUESTED_GENERIC_def)

section \<open>Properties of the cone search\<close>

text \<open>
  The fields of the query of \<^verbatim>\<open>cone_search\<close> for a sky coordinate and a radius that
  converts to degrees: the table and its columns (the configured ones when the caller
  names no table), the circle of the radius at the position, the row restriction, and
  \<^verbatim>\<open>columns\<close> as \<^verbatim>\<open>str.format\<close> writes the tuple or list.
\<close>

lemma cone_search_query_fields:
  assumes "angle_to_deg env q = Inr r"
  shows "cone_search_query cf env (Some (CoordObj (SkyCoord ra_hours dec))) (Some (QuantityObj q))
           table_name ra_column_name dec_column_name columns =
         Inr (cone_query_text
           (if table_name = None then main_table_ra cf else str_opt ra_column_name)
           (row_limit_text cf)
           (if table_name = None then main_table_dec cf else str_opt dec_column_name)
           (str_seq env columns)
           (float_str env (float_mul env ra_hours 15)) (float_str env dec) (float_str env r)
           (if table_name = None then main_table cf else str_opt table_name))"
  using assms
  by (simp add: cone_search_query_def get_coord_input_def radius_to_deg_def
      get_quantity_input_def and_then_def)

lemma row_limit_text_positive: "row_limit_text cf \<noteq> [] \<longleftrightarrow> ROW_LIMIT cf > 0"
  by (simp add: row_limit_text_def)

lemma private_cone_search_query_columns:
  assumes "angle_to_deg env q = Inr r"
  shows "private_cone_search_query cf env (Some (CoordObj (SkyCoord ra_hours dec)))
           (Some (QuantityObj q)) table_name ra_column_name dec_column_name columns =
         Inr (cone_query_text
           (if table_name = None then main_table_ra cf else str_opt ra_column_name)
           (row_limit_text cf)
           (if table_name = None then main_table_dec cf else str_opt dec_column_name)
           (if items columns = [] then ''*'' else join '','' (items columns))
           (float_str env (float_mul env ra_hours 15)) (float_str env dec) (float_str env r)
           (if table_name = None then main_table cf else str_opt table_name))"
  using assms
  by (simp add: private_cone_search_query_def get_coord_input_def radius_to_deg_def
      get_quantity_input_def and_then_def)

text \<open>
  Claim C6 at a cone search around (ra = 10.0 degrees, dec = 20.0 degrees) with a radius
  of 0.05 degrees, a configured row limit of 5 and no columns named (the default empty
  tuple), on the configured table. The query has the table, the circle, the distance
  column, the ordering and \<^verbatim>\<open>TOP 5\<close>, but its projection is \<^verbatim>\<open>()\<close> and not
  \<^verbatim>\<open>*\<close>; for the list of columns \<^verbatim>\<open>ra\<close>, \<^verbatim>\<open>dec\<close> the projection is the text of the
  list, \<^verbatim>\<open>['ra', 'dec']\<close>, and not \<^verbatim>\<open>ra,dec\<close>. The private \<^verbatim>\<open>__cone_search\<close> writes
  \<^verbatim>\<open>*\<close> for the same arguments.
\<close>

theorem cone_search_columns_unconverted:
  "cone_search_query conf5 env_ok (Some (CoordObj (SkyCoord (2 / 3) 20)))
     (Some (QuantityObj (Quantity (1 / 20) ''deg''))) None None None (PyTuple []) =
   Inr (cone_query_text ''right_ascension'' ''TOP 5'' ''declination'' ''()'' ''10.0'' ''20.0''
          ''0.05'' ''catalogue.mer_catalogue'') \<and>
   cone_search_query conf5 env_ok (Some (CoordObj (SkyCoord (2 / 3) 20)))
     (Some (QuantityObj (Quantity (1 / 20) ''deg''))) None None None (PyList [''ra'', ''dec'']) =
   Inr (cone_query_text ''right_ascension'' ''TOP 5'' ''declination''
          (''['' @ quote @ ''ra'' @ quote @ '', '' @ quote @ ''dec'' @ quote @ '']'')
          ''10.0'' ''20.0'' ''0.05'' ''catalogue.mer_catalogue'') \<and>
   private_cone_search_query conf5 env_ok (Some (CoordObj (SkyCoord (2 / 3) 20)))
     (Some (QuantityObj (Quantity (1 / 20) ''deg''))) None None None (PyTuple []) =
   Inr (cone_query_text ''right_ascension'' ''TOP 5'' ''declination'' ''*'' ''10.0'' ''20.0''
          ''0.05'' ''catalogue.mer_catalogue'')"
  by (simp add: cone_search_query_def private_cone_search_query_def get_coord_input_def
      radius_to_deg_def get_quantity_input_def and_then_def env_ok_def conf5_def
      row_limit_text_def str_int_def)

end
